theory Spec2Isabelle
  imports Main
begin

section \<open>Data model of \<open>src/lib/request.ts\<close>\<close>

text \<open>
  Every rejection of a promise and every \<open>throw\<close> is a value of \<open>error\<close>:
  \<^item> \<open>BridgeError\<close>: \<open>jsBridge.getAPIInfo()\<close> rejected;
  \<^item> \<open>InvalidURL\<close>: the platform constructor \<open>new URL(meta.content)\<close> threw its \<open>TypeError\<close>;
  \<^item> \<open>CantGetHostnameOrPort\<close>: \<open>throw new Error('can\'t get hostname or port')\<close>;
  \<^item> \<open>RequestFailed\<close>: the HTTP client rejected without a response;
  \<^item> \<open>BadStatus\<close>: the HTTP client rejected a response whose status \<open>validateStatus\<close> refused.
\<close>

datatype error =
    BridgeError string
  | InvalidURL
  | CantGetHostnameOrPort
  | RequestFailed string
  | BadStatus int

text \<open>The fields of a platform \<open>URL\<close> object that the resolver reads.\<close>

record URL =
  url_hostname :: string
  url_port :: string
  url_username :: string
  url_protocol :: string

text \<open>What \<open>jsBridge.getAPIInfo()\<close> resolves to.\<close>

record api_info =
  info_host :: string
  info_port :: string
  info_secret :: string

text \<open>
  The browser environment read by \<open>getExternalControllerConfig\<close>. The helpers
  \<open>getSearchParam\<close> and \<open>getLocalStorageItem\<close> of \<open>@lib/helper\<close>, \<open>isClashX\<close> and the
  bridge of \<open>@lib/jsBridge\<close>, and the platform's \<open>URL\<close> constructor are parameters:
  \<open>getSearchParam k\<close> is \<open>None\<close> for \<open>null\<close>, \<open>new_URL s\<close> is \<open>None\<close> when the constructor throws,
  \<open>meta_content\<close> is \<open>None\<close> when the page has no \<open>meta[name="external-controller"]\<close>.
\<close>

record env =
  isClashX :: bool
  getAPIInfo :: "error + api_info"
  meta_content :: "string option"
  new_URL :: "string \<Rightarrow> URL option"
  getSearchParam :: "string \<Rightarrow> string option"
  getLocalStorageItem :: "string \<Rightarrow> string \<Rightarrow> string"
  location_protocol :: string

text \<open>The object returned by \<open>getExternalControllerConfig\<close>.\<close>

record controller_config =
  hostname :: string
  port :: string
  secret :: string
  protocol :: string

text \<open>\<open>interface Config\<close>.\<close>

record Config =
  cfg_port :: int
  socks_port :: int
  redir_port :: int
  mixed_port :: int
  allow_lan :: bool
  mode :: string
  log_level :: string

text \<open>The payload of \<open>getVersion\<close>: \<open>{ version: string, premium?: boolean }\<close>.\<close>

record version_info =
  version :: string
  premium :: "bool option"

text \<open>A response of the HTTP client: the status and the decoded body.\<close>

record 'd response =
  status :: int
  data :: 'd

text \<open>\<open>interface ProxyProviders\<close>, over any representation \<open>'p\<close> of a \<open>Provider\<close>.\<close>

record 'p ProxyProviders =
  providers :: "string \<rightharpoonup> 'p"

text \<open>The HTTP client built by \<open>axios.create\<close>: its base URL and default headers.\<close>

record axios_instance =
  baseURL :: string
  headers :: "(string \<times> string) list"

text \<open>
  The argument object of \<open>new StreamReader(...)\<close>. The class lives in \<open>./streamer\<close>;
  an instance is represented by the configuration it was constructed with.
\<close>

record stream_config =
  url :: string
  bufferLength :: nat
  token :: string
  useWebsocket :: bool

datatype StreamReader = StreamReader (reader_config: stream_config)

section \<open>The endpoint resolver\<close>

text \<open>The regular expression \<open>/^https?:/\<close>.\<close>

definition matches_http_scheme :: "string \<Rightarrow> bool" where
  "matches_http_scheme s = (take 5 s = ''http:'' \<or> take 6 s = ''https:'')"

text \<open>
  Lines 113 to 120: \<open>url\<close> stays \<open>undefined\<close> unless the meta element exists and its content
  matches the expression; then \<open>new URL\<close> either yields the object or throws.
\<close>

definition meta_url :: "env \<Rightarrow> error + URL option" where
  "meta_url e =
     (case meta_content e of
        None \<Rightarrow> Inr None
      | Some content \<Rightarrow>
          if matches_http_scheme content
          then (case new_URL e content of None \<Rightarrow> Inl InvalidURL | Some u \<Rightarrow> Inr (Some u))
          else Inr None)"

text \<open>\<open>a ?? b\<close> on a value that may be \<open>null\<close>.\<close>

definition nullish :: "'a option \<Rightarrow> 'a \<Rightarrow> 'a" where
  "nullish a b = (case a of Some v \<Rightarrow> v | None \<Rightarrow> b)"

text \<open>Lines 122 to 124: the three constants \<open>hostname\<close>, \<open>port\<close> and \<open>secret\<close>.\<close>

definition resolve_hostname :: "env \<Rightarrow> URL option \<Rightarrow> string" where
  "resolve_hostname e u =
     nullish (getSearchParam e ''host'')
       (getLocalStorageItem e ''externalControllerAddr''
          (nullish (map_option url_hostname u) ''127.0.0.1''))"

definition resolve_port :: "env \<Rightarrow> URL option \<Rightarrow> string" where
  "resolve_port e u =
     nullish (getSearchParam e ''port'')
       (getLocalStorageItem e ''externalControllerPort''
          (nullish (map_option url_port u) ''9090''))"

definition resolve_secret :: "env \<Rightarrow> URL option \<Rightarrow> string" where
  "resolve_secret e u =
     nullish (getSearchParam e ''secret'')
       (getLocalStorageItem e ''secret'' (nullish (map_option url_username u) []))"

text \<open>
  Line 125. \<open>??\<close> binds weaker than \<open>===\<close> and tighter than \<open>? :\<close>, so the expression is
  \<open>(getSearchParam('protocol') ?? (hostname === '127.0.0.1')) ? 'http:' : (url?.protocol ?? window.location.protocol)\<close>.
  A string is truthy when it is not empty.
\<close>

definition resolve_protocol :: "env \<Rightarrow> URL option \<Rightarrow> string \<Rightarrow> string" where
  "resolve_protocol e u h =
     (if (case getSearchParam e ''protocol'' of
            Some p \<Rightarrow> p \<noteq> []
          | None \<Rightarrow> h = ''127.0.0.1'')
      then ''http:''
      else nullish (map_option url_protocol u) (location_protocol e))"

definition getExternalControllerConfig :: "env \<Rightarrow> error + controller_config" where
  "getExternalControllerConfig e =
     (if isClashX e then
        (case getAPIInfo e of
           Inl err \<Rightarrow> Inl err
         | Inr info \<Rightarrow>
             Inr \<lparr>hostname = info_host info, port = info_port info,
                  secret = info_secret info, protocol = ''http:''\<rparr>)
      else
        (case meta_url e of
           Inl err \<Rightarrow> Inl err
         | Inr u \<Rightarrow>
             (let h = resolve_hostname e u;
                  p = resolve_port e u;
                  s = resolve_secret e u;
                  pr = resolve_protocol e u h
              in if h = [] \<or> p = [] then Inl CantGetHostnameOrPort
                 else Inr \<lparr>hostname = h, port = p, secret = s, protocol = pr\<rparr>)))"

section \<open>The HTTP client and its requests\<close>

text \<open>The factory wrapped by \<open>getInstance\<close>.\<close>

definition getInstance_factory :: "env \<Rightarrow> error + axios_instance" where
  "getInstance_factory e =
     (case getExternalControllerConfig e of
        Inl err \<Rightarrow> Inl err
      | Inr c \<Rightarrow>
          Inr \<lparr>baseURL = protocol c @ ''//'' @ hostname c @ '':'' @ port c,
               headers = (if secret c \<noteq> [] then [(''Authorization'', ''Bearer '' @ secret c)]
                          else [])\<rparr>)"

text \<open>
  A request of the HTTP client: \<open>raw\<close> is what the network gave (a rejection or a
  response); a response is accepted when \<open>validate\<close> holds of its status.
\<close>

definition axios_get :: "(int \<Rightarrow> bool) \<Rightarrow> error + 'd response \<Rightarrow> error + 'd response" where
  "axios_get validate raw =
     (case raw of
        Inl err \<Rightarrow> Inl err
      | Inr resp \<Rightarrow> if validate (status resp) then Inr resp else Inl (BadStatus (status resp)))"

text \<open>The \<open>validateStatus\<close> option of \<open>getProxyProviders\<close>.\<close>

definition validateStatus :: "int \<Rightarrow> bool" where
  "validateStatus st = ((st \<ge> 200 \<and> st < 300) \<or> st = 404)"

definition getProxyProviders ::
  "error + axios_instance \<Rightarrow> error + 'p ProxyProviders response
     \<Rightarrow> error + 'p ProxyProviders response" where
  "getProxyProviders inst raw =
     (case inst of
        Inl err \<Rightarrow> Inl err
      | Inr req \<Rightarrow>
          (case axios_get validateStatus raw of
             Inl err \<Rightarrow> Inl err
           | Inr resp \<Rightarrow>
               Inr (if status resp = 404
                    then resp\<lparr>data := \<lparr>providers = Map.empty\<rparr>\<rparr>
                    else resp)))"

section \<open>The stream factories\<close>

text \<open>
  \<open>const [data, err] = await to(getVersion())\<close> followed by
  \<open>const version = err ? 'unkonwn version' : data.data.version\<close>:
  the probe's outcome is a rejection or a response.
\<close>

definition probe_version :: "error + version_info response \<Rightarrow> string" where
  "probe_version r =
     (case r of Inl err \<Rightarrow> ''unkonwn version'' | Inr d \<Rightarrow> version (data d))"

text \<open>\<open>const useWebsocket = !!version || true\<close>.\<close>

definition useWebsocket_of :: "string \<Rightarrow> bool" where
  "useWebsocket_of v = (v \<noteq> [] \<or> True)"

text \<open>
  The factory wrapped by \<open>getLogsStreamReader\<close>: \<open>cfg\<close> is the outcome of \<open>getConfig()\<close>,
  \<open>ver\<close> the outcome of \<open>getVersion()\<close>.
\<close>

definition getLogsStreamReader_factory ::
  "env \<Rightarrow> error + Config response \<Rightarrow> error + version_info response \<Rightarrow> error + StreamReader" where
  "getLogsStreamReader_factory e cfg ver =
     (case getExternalControllerConfig e of
        Inl err \<Rightarrow> Inl err
      | Inr externalController \<Rightarrow>
          (case cfg of
             Inl err \<Rightarrow> Inl err
           | Inr resp \<Rightarrow>
               (let config = data resp;
                    v = probe_version ver;
                    ws = useWebsocket_of v;
                    logUrl = protocol externalController @ ''//'' @ hostname externalController
                             @ '':'' @ port externalController
                             @ ''/logs?level='' @ log_level config
                in Inr (StreamReader \<lparr>url = logUrl, bufferLength = 200,
                                       token = secret externalController,
                                       useWebsocket = ws\<rparr>))))"

text \<open>The factory wrapped by \<open>getConnectionStreamReader\<close>.\<close>

definition getConnectionStreamReader_factory ::
  "env \<Rightarrow> error + version_info response \<Rightarrow> error + StreamReader" where
  "getConnectionStreamReader_factory e ver =
     (case getExternalControllerConfig e of
        Inl err \<Rightarrow> Inl err
      | Inr externalController \<Rightarrow>
          (let v = probe_version ver;
               ws = useWebsocket_of v;
               logUrl = protocol externalController @ ''//'' @ hostname externalController
                        @ '':'' @ port externalController @ ''/connections''
           in Inr (StreamReader \<lparr>url = logUrl, bufferLength = 200,
                                  token = secret externalController,
                                  useWebsocket = ws\<rparr>)))"

section \<open>AsyncSingleton\<close>

text \<open>
  Modelled from the spec: \<open>createAsyncSingleton\<close> of \<open>@lib/asyncSingleton\<close> is not among
  the sources. Section 3 of the specification: an AsyncSingleton holds exactly one of
  unresolved, in-flight (with the set of waiters), resolved (a value) and failed (an error).
  Waiters are caller identifiers in arrival order; the in-flight state also records which
  invocation of the factory is pending.
\<close>

datatype ('e, 'a) slot =
    Unresolved
  | InFlight nat "nat list"
  | Resolved 'a
  | Failed 'e

text \<open>
  Modelled from the spec: the observable state of an AsyncSingleton that is missing from the
  sources: its slot, how often the factory has been invoked, and the results delivered so
  far, each with the caller that received it.
\<close>

record ('e, 'a) singleton =
  slot :: "('e, 'a) slot"
  invocations :: nat
  delivered :: "(nat \<times> ('e + 'a)) list"

text \<open>
  Modelled from the spec: what can happen to an AsyncSingleton (missing from the sources)
  on the event loop of section 5: a caller invokes \<open>get()\<close>, or the pending factory
  operation settles.
\<close>

datatype event = Get nat | Settle

text \<open>Modelled from the spec: the initial state of the missing AsyncSingleton, unresolved.\<close>

definition new_singleton :: "('e, 'a) singleton" where
  "new_singleton = \<lparr>slot = Unresolved, invocations = 0, delivered = []\<rparr>"

text \<open>
  Modelled from the spec: section 4.1, for the missing \<open>createAsyncSingleton\<close>. The first call
  invokes the factory once and every caller arriving before it settles waits on the same
  operation; on success the value is cached and handed to the waiters and to every later
  caller; on failure the failure goes to the waiters, is cached, and is not retried.
  \<open>factory k\<close> is the outcome of the \<open>k\<close>-th invocation of the factory. A settle event
  with no operation in flight changes nothing.
\<close>

fun step :: "(nat \<Rightarrow> 'e + 'a) \<Rightarrow> ('e, 'a) singleton \<Rightarrow> event \<Rightarrow> ('e, 'a) singleton" where
  "step factory s (Get c) =
     (case slot s of
        Unresolved \<Rightarrow> s\<lparr>slot := InFlight (invocations s) [c], invocations := Suc (invocations s)\<rparr>
      | InFlight k ws \<Rightarrow> s\<lparr>slot := InFlight k (ws @ [c])\<rparr>
      | Resolved v \<Rightarrow> s\<lparr>delivered := delivered s @ [(c, Inr v)]\<rparr>
      | Failed err \<Rightarrow> s\<lparr>delivered := delivered s @ [(c, Inl err)]\<rparr>)"
| "step factory s Settle =
     (case slot s of
        InFlight k ws \<Rightarrow>
          (case factory k of
             Inr v \<Rightarrow> s\<lparr>slot := Resolved v,
                        delivered := delivered s @ map (\<lambda>c. (c, Inr v)) ws\<rparr>
           | Inl err \<Rightarrow> s\<lparr>slot := Failed err,
                          delivered := delivered s @ map (\<lambda>c. (c, Inl err)) ws\<rparr>)
      | Unresolved \<Rightarrow> s
      | Resolved v \<Rightarrow> s
      | Failed err \<Rightarrow> s)"

text \<open>Modelled from the spec: a run of the missing AsyncSingleton over a sequence of events.\<close>

definition run :: "(nat \<Rightarrow> 'e + 'a) \<Rightarrow> event list \<Rightarrow> ('e, 'a) singleton" where
  "run factory evs = foldl (step factory) new_singleton evs"

text \<open>The callers of \<open>get()\<close> in a sequence of events, in arrival order.\<close>

fun callers :: "event list \<Rightarrow> nat list" where
  "callers [] = []"
| "callers (Get c # evs) = c # callers evs"
| "callers (Settle # evs) = callers evs"

text \<open>Whether the singleton has a cached outcome.\<close>

definition settled :: "('e, 'a) singleton \<Rightarrow> bool" where
  "settled s = (case slot s of Resolved v \<Rightarrow> True | Failed err \<Rightarrow> True
                | Unresolved \<Rightarrow> False | InFlight k ws \<Rightarrow> False)"

text \<open>
  The invariant of a run: what the state is after the events \<open>evs\<close>, in terms of the callers
  among them and the outcome of the first invocation of the factory.
\<close>

definition singleton_inv ::
  "(nat \<Rightarrow> 'e + 'a) \<Rightarrow> event list \<Rightarrow> ('e, 'a) singleton \<Rightarrow> bool" where
  "singleton_inv factory evs s =
     (case slot s of
        Unresolved \<Rightarrow> callers evs = [] \<and> invocations s = 0 \<and> delivered s = []
      | InFlight k ws \<Rightarrow>
          k = 0 \<and> ws = callers evs \<and> ws \<noteq> [] \<and> invocations s = 1 \<and> delivered s = []
      | Resolved v \<Rightarrow>
          factory 0 = Inr v \<and> callers evs \<noteq> [] \<and> invocations s = 1
          \<and> delivered s = map (\<lambda>c. (c, Inr v)) (callers evs)
      | Failed err \<Rightarrow>
          factory 0 = Inl err \<and> callers evs \<noteq> [] \<and> invocations s = 1
          \<and> delivered s = map (\<lambda>c. (c, Inl err)) (callers evs))"

section \<open>The buffer of a StreamReader\<close>

text \<open>
  Modelled from the spec: the class \<open>StreamReader\<close> of \<open>./streamer\<close> is not among the sources.
  Section 3: a reader owns a bounded buffer of up to \<open>bufferLength\<close> most recent records and
  a monotonically increasing sequence counter assigned to each record.
\<close>

record 'a reader_state =
  capacity :: nat
  buffer :: "(nat \<times> 'a) list"
  next_seq :: nat

text \<open>
  Modelled from the spec: a freshly constructed reader (the class is missing from the
  sources) has an empty buffer; the specification leaves the first sequence number open,
  so it is a parameter.
\<close>

definition new_reader :: "nat \<Rightarrow> nat \<Rightarrow> 'a reader_state" where
  "new_reader B n0 = \<lparr>capacity = B, buffer = [], next_seq = n0\<rparr>"

text \<open>
  Modelled from the spec: section 4.2 for the missing \<open>StreamReader\<close>: every successfully
  decoded record is appended to the ring buffer under the assigned next sequence number; if
  the buffer is at capacity, the oldest record is evicted before insertion.
\<close>

definition produce :: "'a reader_state \<Rightarrow> 'a \<Rightarrow> 'a reader_state" where
  "produce s r =
     s\<lparr>buffer := (if length (buffer s) = capacity s then tl (buffer s) else buffer s)
                   @ [(next_seq s, r)],
       next_seq := Suc (next_seq s)\<rparr>"

text \<open>Modelled from the spec: the missing reader's state after a sequence of produced records.\<close>

definition feed :: "'a reader_state \<Rightarrow> 'a list \<Rightarrow> 'a reader_state" where
  "feed s rs = foldl produce s rs"

section \<open>Sample environments\<close>

text \<open>A page with no metadata, no search parameters and nothing in local storage.\<close>

definition env_plain :: env where
  "env_plain =
     \<lparr>isClashX = False, getAPIInfo = Inl (BridgeError ''no bridge''),
      meta_content = None, new_URL = (\<lambda>s. None),
      getSearchParam = Map.empty, getLocalStorageItem = (\<lambda>k d. d),
      location_protocol = ''https:''\<rparr>"

text \<open>
  A page opened as \<open>?host=192.168.1.2&port=9090&secret=s3cret&protocol=https:\<close>.
\<close>

definition env_params :: env where
  "env_params =
     \<lparr>isClashX = False, getAPIInfo = Inl (BridgeError ''no bridge''),
      meta_content = None, new_URL = (\<lambda>s. None),
      getSearchParam = [''host'' \<mapsto> ''192.168.1.2'', ''port'' \<mapsto> ''9090'',
                        ''secret'' \<mapsto> ''s3cret'', ''protocol'' \<mapsto> ''https:''],
      getLocalStorageItem = (\<lambda>k d. d),
      location_protocol = ''https:''\<rparr>"

text \<open>
  A page opened as \<open>?host=192.168.1.2&port=9090\<close> whose metadata is
  \<open><meta name="external-controller" content="http:">\<close>: the content matches \<open>/^https?:/\<close>,
  and the \<open>URL\<close> constructor rejects it, since it names no host.
\<close>

definition env_bad_meta :: env where
  "env_bad_meta =
     \<lparr>isClashX = False, getAPIInfo = Inl (BridgeError ''no bridge''),
      meta_content = Some ''http:'', new_URL = (\<lambda>s. None),
      getSearchParam = [''host'' \<mapsto> ''192.168.1.2'', ''port'' \<mapsto> ''9090''],
      getLocalStorageItem = (\<lambda>k d. d),
      location_protocol = ''https:''\<rparr>"

text \<open>A page opened as \<open>?port=\<close>: the port parameter is present and empty.\<close>

definition env_empty_port :: env where
  "env_empty_port =
     \<lparr>isClashX = False, getAPIInfo = Inl (BridgeError ''no bridge''),
      meta_content = None, new_URL = (\<lambda>s. None),
      getSearchParam = [''port'' \<mapsto> []], getLocalStorageItem = (\<lambda>k d. d),
      location_protocol = ''https:''\<rparr>"

text \<open>The dashboard inside ClashX, whose bridge reports an empty host.\<close>

definition env_clashx :: env where
  "env_clashx =
     \<lparr>isClashX = True,
      getAPIInfo = Inr \<lparr>info_host = [], info_port = ''9090'', info_secret = ''s3cret''\<rparr>,
      meta_content = None, new_URL = (\<lambda>s. None),
      getSearchParam = Map.empty, getLocalStorageItem = (\<lambda>k d. d),
      location_protocol = ''file:''\<rparr>"

text \<open>A daemon configuration and two answers of the version probe.\<close>

definition sample_config :: "Config response" where
  "sample_config =
     \<lparr>status = 200,
      data = \<lparr>cfg_port = 7890, socks_port = 7891, redir_port = 0, mixed_port = 0,
              allow_lan = False, mode = ''rule'', log_level = ''info''\<rparr>\<rparr>"

definition sample_version :: "version_info response" where
  "sample_version = \<lparr>status = 200, data = \<lparr>version = ''1.18.0'', premium = None\<rparr>\<rparr>"

definition empty_version :: "version_info response" where
  "empty_version = \<lparr>status = 200, data = \<lparr>version = [], premium = None\<rparr>\<rparr>"

text \<open>
  The objects that successive invocations of the logs factory would construct on the plain
  page: each \<open>new StreamReader\<close> makes an object of its own, told apart here by the number
  of the invocation that made it.
\<close>

definition logs_instances :: "nat \<Rightarrow> error + (nat \<times> StreamReader)" where
  "logs_instances k =
     map_sum id (Pair k)
       (getLogsStreamReader_factory env_plain (Inr sample_config) (Inr sample_version))"

text \<open>
  A logs factory whose first invocation runs on the page with the empty port, and whose
  later invocations, were there any, would run on the plain page.
\<close>

definition retried_factory :: "nat \<Rightarrow> error + StreamReader" where
  "retried_factory k =
     (if k = 0
      then getLogsStreamReader_factory env_empty_port (Inr sample_config) (Inr sample_version)
      else getLogsStreamReader_factory env_plain (Inr sample_config) (Inr sample_version))"

section \<open>Facts about the resolver\<close>

lemmas resolver_defs =
  getExternalControllerConfig_def meta_url_def resolve_hostname_def resolve_port_def
  resolve_secret_def resolve_protocol_def nullish_def matches_http_scheme_def

lemma resolve_env_plain:
  "getExternalControllerConfig env_plain =
     Inr \<lparr>hostname = ''127.0.0.1'', port = ''9090'', secret = [], protocol = ''http:''\<rparr>"
  by (simp add: resolver_defs env_plain_def)

lemma resolve_env_params:
  "getExternalControllerConfig env_params =
     Inr \<lparr>hostname = ''192.168.1.2'', port = ''9090'', secret = ''s3cret'',
          protocol = ''http:''\<rparr>"
  by (simp add: resolver_defs env_params_def)

lemma logs_factory_resolved:
  assumes "getExternalControllerConfig e = Inr ec"
  shows "getLogsStreamReader_factory e (Inr resp) ver =
           Inr (StreamReader
                 \<lparr>url = protocol ec @ ''//'' @ hostname ec @ '':'' @ port ec
                         @ ''/logs?level='' @ log_level (data resp),
                  bufferLength = 200, token = secret ec, useWebsocket = True\<rparr>)"
  using assms by (simp add: getLogsStreamReader_factory_def useWebsocket_of_def Let_def)

lemma connection_factory_resolved:
  assumes "getExternalControllerConfig e = Inr ec"
  shows "getConnectionStreamReader_factory e ver =
           Inr (StreamReader
                 \<lparr>url = protocol ec @ ''//'' @ hostname ec @ '':'' @ port ec @ ''/connections'',
                  bufferLength = 200, token = secret ec, useWebsocket = True\<rparr>)"
  using assms by (simp add: getConnectionStreamReader_factory_def useWebsocket_of_def Let_def)

section \<open>The websocket preference\<close>

text \<open>
  Claim C1. Whatever the version probe gives (a rejection, or a response with any version
  string, the empty one included), the flag \<open>useWebsocket\<close> computed from it is true, both
  factories return the same result as for any other probe outcome, and every
  \<open>StreamReader\<close> they return was constructed with \<open>useWebsocket = true\<close>.
\<close>

theorem websocket_always_preferred:
  "useWebsocket_of (probe_version ver)
   \<and> getLogsStreamReader_factory e cfg ver = getLogsStreamReader_factory e cfg ver'
   \<and> getConnectionStreamReader_factory e ver = getConnectionStreamReader_factory e ver'
   \<and> (getLogsStreamReader_factory e cfg ver = Inr r \<longrightarrow> useWebsocket (reader_config r))
   \<and> (getConnectionStreamReader_factory e ver = Inr r' \<longrightarrow> useWebsocket (reader_config r'))"
proof -
  have flag: "useWebsocket_of v" for v
    by (simp add: useWebsocket_of_def)
  have logs: "getLogsStreamReader_factory e cfg a = getLogsStreamReader_factory e cfg b" for a b
    by (simp add: getLogsStreamReader_factory_def flag Let_def split: sum.splits)
  have conns: "getConnectionStreamReader_factory e a = getConnectionStreamReader_factory e b"
    for a b
    by (simp add: getConnectionStreamReader_factory_def flag Let_def split: sum.splits)
  have logs_flag: "useWebsocket (reader_config r)"
    if "getLogsStreamReader_factory e cfg ver = Inr r"
    using that
    by (auto simp: getLogsStreamReader_factory_def flag Let_def split: sum.splits)
  have conns_flag: "useWebsocket (reader_config r')"
    if "getConnectionStreamReader_factory e ver = Inr r'"
    using that
    by (auto simp: getConnectionStreamReader_factory_def flag Let_def split: sum.splits)
  show ?thesis
    using flag logs conns logs_flag conns_flag by blast
qed

theorem websocket_always_preferred_witness:
  "getLogsStreamReader_factory env_plain (Inr sample_config) (Inr empty_version) =
     Inr (StreamReader \<lparr>url = ''http://127.0.0.1:9090/logs?level=info'', bufferLength = 200,
                         token = [], useWebsocket = True\<rparr>)
   \<and> getConnectionStreamReader_factory env_plain (Inr empty_version) =
     Inr (StreamReader \<lparr>url = ''http://127.0.0.1:9090/connections'', bufferLength = 200,
                         token = [], useWebsocket = True\<rparr>)
   \<and> getLogsStreamReader_factory env_plain (Inr sample_config) (Inr empty_version) =
     getLogsStreamReader_factory env_plain (Inr sample_config) (Inl (RequestFailed ''timeout''))
   \<and> useWebsocket_of (probe_version (Inr empty_version))"
  using websocket_always_preferred
          [where e = env_plain and cfg = "Inr sample_config" and ver = "Inr empty_version"
             and ver' = "Inl (RequestFailed ''timeout'')"]
        logs_factory_resolved [OF resolve_env_plain, of sample_config "Inr empty_version"]
        connection_factory_resolved [OF resolve_env_plain, of "Inr empty_version"]
  by (simp add: sample_config_def)

section \<open>A failed version probe\<close>

text \<open>
  Claim C3, as stated, is false: after a failed probe the constant \<open>version\<close> is not the
  string "version unknown".
\<close>

theorem probe_failure_string_counterexample:
  "probe_version (Inl (RequestFailed ''timeout'')) \<noteq> ''version unknown''"
  by (simp add: probe_version_def)

text \<open>
  Claim C3, amended. When the endpoint resolves (and, for the logs, the configuration is
  fetched), a failed version probe does not fail the factory: each factory still returns the
  \<open>StreamReader\<close> it returns for a successful probe. The version is then a placeholder:
  one and the same string for every failure, and not the empty string.
\<close>

theorem probe_failure_absorbed:
  assumes "getExternalControllerConfig e = Inr ec"
  shows "(\<exists>r. getLogsStreamReader_factory e (Inr resp) (Inl err) = Inr r
              \<and> getLogsStreamReader_factory e (Inr resp) (Inr v) = Inr r)
         \<and> (\<exists>r. getConnectionStreamReader_factory e (Inl err) = Inr r
                \<and> getConnectionStreamReader_factory e (Inr v) = Inr r)
         \<and> probe_version (Inl err) = probe_version (Inl err')
         \<and> probe_version (Inl err) \<noteq> []"
  using logs_factory_resolved [OF assms] connection_factory_resolved [OF assms]
  by (simp add: probe_version_def)

theorem probe_failure_absorbed_witness:
  "getExternalControllerConfig env_params =
     Inr \<lparr>hostname = ''192.168.1.2'', port = ''9090'', secret = ''s3cret'',
          protocol = ''http:''\<rparr>
   \<and> getLogsStreamReader_factory env_params (Inr sample_config) (Inl (RequestFailed ''timeout''))
     = Inr (StreamReader \<lparr>url = ''http://192.168.1.2:9090/logs?level=info'',
                           bufferLength = 200, token = ''s3cret'', useWebsocket = True\<rparr>)
   \<and> probe_version (Inl (RequestFailed ''timeout'')) = probe_version (Inl (BadStatus 500))
   \<and> probe_version (Inl (RequestFailed ''timeout'')) \<noteq> []"
  using probe_failure_absorbed
          [OF resolve_env_params, of sample_config "RequestFailed ''timeout''" sample_version
             "BadStatus 500"]
        logs_factory_resolved
          [OF resolve_env_params, of sample_config "Inl (RequestFailed ''timeout'')"]
        resolve_env_params
  by (simp add: sample_config_def probe_version_def)

section \<open>The feed URLs and the reader's configuration\<close>

text \<open>
  Claim C4. For every endpoint the resolver returns and every configuration response, the
  logs factory constructs its reader with the URL
  \<open><protocol>//<hostname>:<port>/logs?level=<log-level>\<close>, and the connections factory with
  \<open><protocol>//<hostname>:<port>/connections\<close>, whatever the version probe gave.
\<close>

theorem stream_reader_urls:
  assumes "getExternalControllerConfig e = Inr ec"
  shows "(\<exists>r. getLogsStreamReader_factory e (Inr resp) ver = Inr r
              \<and> url (reader_config r) =
                  protocol ec @ ''//'' @ hostname ec @ '':'' @ port ec
                  @ ''/logs?level='' @ log_level (data resp))
         \<and> (\<exists>r. getConnectionStreamReader_factory e ver = Inr r
                \<and> url (reader_config r) =
                    protocol ec @ ''//'' @ hostname ec @ '':'' @ port ec @ ''/connections'')"
  using logs_factory_resolved [OF assms] connection_factory_resolved [OF assms]
  by simp

theorem stream_reader_urls_witness:
  "getExternalControllerConfig env_params =
     Inr \<lparr>hostname = ''192.168.1.2'', port = ''9090'', secret = ''s3cret'',
          protocol = ''http:''\<rparr>
   \<and> (\<exists>r. getLogsStreamReader_factory env_params (Inr sample_config) (Inr sample_version) = Inr r
          \<and> url (reader_config r) = ''http://192.168.1.2:9090/logs?level=info'')
   \<and> (\<exists>r. getConnectionStreamReader_factory env_params (Inr sample_version) = Inr r
          \<and> url (reader_config r) = ''http://192.168.1.2:9090/connections'')"
  using stream_reader_urls [OF resolve_env_params, of sample_config "Inr sample_version"]
        resolve_env_params
  by (simp add: sample_config_def)

text \<open>
  Claim C5. For every endpoint the resolver returns (and, for the logs, every configuration
  response), both factories construct their reader with buffer length 200, with the
  endpoint's secret as token, and with the websocket preference flag, which is true.
\<close>

theorem stream_reader_settings:
  assumes "getExternalControllerConfig e = Inr ec"
  shows "(\<exists>r. getLogsStreamReader_factory e (Inr resp) ver = Inr r
              \<and> bufferLength (reader_config r) = 200
              \<and> token (reader_config r) = secret ec
              \<and> useWebsocket (reader_config r) = useWebsocket_of (probe_version ver)
              \<and> useWebsocket (reader_config r))
         \<and> (\<exists>r. getConnectionStreamReader_factory e ver = Inr r
                \<and> bufferLength (reader_config r) = 200
                \<and> token (reader_config r) = secret ec
                \<and> useWebsocket (reader_config r) = useWebsocket_of (probe_version ver)
                \<and> useWebsocket (reader_config r))"
  using logs_factory_resolved [OF assms] connection_factory_resolved [OF assms]
  by (simp add: useWebsocket_of_def)

theorem stream_reader_settings_witness:
  "getExternalControllerConfig env_params =
     Inr \<lparr>hostname = ''192.168.1.2'', port = ''9090'', secret = ''s3cret'',
          protocol = ''http:''\<rparr>
   \<and> (\<exists>r. getLogsStreamReader_factory env_params (Inr sample_config) (Inr sample_version) = Inr r
          \<and> bufferLength (reader_config r) = 200
          \<and> token (reader_config r) = ''s3cret''
          \<and> useWebsocket (reader_config r))
   \<and> (\<exists>r. getConnectionStreamReader_factory env_params (Inr sample_version) = Inr r
          \<and> bufferLength (reader_config r) = 200
          \<and> token (reader_config r) = ''s3cret''
          \<and> useWebsocket (reader_config r))"
  using stream_reader_settings [OF resolve_env_params, of sample_config "Inr sample_version"]
        resolve_env_params
  by auto

section \<open>When the resolver throws\<close>

text \<open>
  Claim C6, as stated, is false: on the page of \<open>env_bad_meta\<close> the resolver throws, and
  neither the hostname nor the port that the search parameters give is empty. The error
  is the \<open>TypeError\<close> of \<open>new URL\<close>, raised before either is read.
\<close>

theorem resolver_throws_counterexample:
  "\<not> (isl (getExternalControllerConfig env_bad_meta)
        \<longleftrightarrow> (resolve_hostname env_bad_meta None = [] \<or> resolve_port env_bad_meta None = []))"
  by (simp add: resolver_defs env_bad_meta_def)

text \<open>
  Claim C6, amended. Outside ClashX, and when reading the page metadata did not throw
  (there is no \<open>external-controller\<close> metadata, or its content does not match
  \<open>/^https?:/\<close>, or \<open>new URL\<close> accepted it), the resolver throws if and only if the hostname
  or the port it resolves is empty, the error then being "can't get hostname or port";
  otherwise it returns the record of hostname, port, secret and protocol. Inside ClashX it
  checks nothing: whatever the bridge reports is returned, with the protocol \<open>'http:'\<close>.
\<close>

theorem resolver_throws_iff:
  "(\<not> isClashX e \<longrightarrow> meta_url e = Inr u \<longrightarrow>
      (isl (getExternalControllerConfig e)
         \<longleftrightarrow> (resolve_hostname e u = [] \<or> resolve_port e u = []))
      \<and> (isl (getExternalControllerConfig e)
           \<longrightarrow> getExternalControllerConfig e = Inl CantGetHostnameOrPort)
      \<and> (\<not> isl (getExternalControllerConfig e)
           \<longrightarrow> getExternalControllerConfig e =
                 Inr \<lparr>hostname = resolve_hostname e u, port = resolve_port e u,
                      secret = resolve_secret e u,
                      protocol = resolve_protocol e u (resolve_hostname e u)\<rparr>))
   \<and> (isClashX e \<longrightarrow> getAPIInfo e = Inr info \<longrightarrow>
        getExternalControllerConfig e =
          Inr \<lparr>hostname = info_host info, port = info_port info,
               secret = info_secret info, protocol = ''http:''\<rparr>)"
  by (simp add: getExternalControllerConfig_def Let_def)

theorem resolver_throws_iff_witness:
  "\<not> isClashX env_params \<and> meta_url env_params = Inr None
   \<and> resolve_hostname env_params None = ''192.168.1.2''
   \<and> resolve_port env_params None = ''9090''
   \<and> getExternalControllerConfig env_params =
       Inr \<lparr>hostname = ''192.168.1.2'', port = ''9090'', secret = ''s3cret'',
            protocol = ''http:''\<rparr>
   \<and> \<not> isClashX env_empty_port \<and> meta_url env_empty_port = Inr None
   \<and> resolve_port env_empty_port None = []
   \<and> getExternalControllerConfig env_empty_port = Inl CantGetHostnameOrPort
   \<and> isClashX env_clashx
   \<and> getAPIInfo env_clashx =
       Inr \<lparr>info_host = [], info_port = ''9090'', info_secret = ''s3cret''\<rparr>
   \<and> getExternalControllerConfig env_clashx =
       Inr \<lparr>hostname = [], port = ''9090'', secret = ''s3cret'', protocol = ''http:''\<rparr>"
proof -
  have p1: "\<not> isClashX env_params" and p2: "meta_url env_params = Inr None"
    by (simp_all add: env_params_def meta_url_def)
  have q1: "\<not> isClashX env_empty_port" and q2: "meta_url env_empty_port = Inr None"
    by (simp_all add: env_empty_port_def meta_url_def)
  have x1: "isClashX env_clashx"
    and x2: "getAPIInfo env_clashx =
               Inr \<lparr>info_host = [], info_port = ''9090'', info_secret = ''s3cret''\<rparr>"
    by (simp_all add: env_clashx_def)
  have h: "resolve_hostname env_params None = ''192.168.1.2''"
    and p: "resolve_port env_params None = ''9090''"
    and s: "resolve_secret env_params None = ''s3cret''"
    and pr: "resolve_protocol env_params None ''192.168.1.2'' = ''http:''"
    by (simp_all add: resolver_defs env_params_def)
  have ep: "resolve_port env_empty_port None = []"
    by (simp add: resolver_defs env_empty_port_def)
  show ?thesis
    using resolver_throws_iff [of env_params None]
          resolver_throws_iff [of env_empty_port None]
          resolver_throws_iff
            [of env_clashx _ "\<lparr>info_host = [], info_port = ''9090'', info_secret = ''s3cret''\<rparr>"]
          p1 p2 q1 q2 x1 x2 h p s pr ep
    by simp
qed

section \<open>The protocol search parameter\<close>

text \<open>
  Claim C9. Outside ClashX, when the search parameter \<open>protocol\<close> is present with a
  non-empty value, the constant \<open>protocol\<close> is the literal \<open>'http:'\<close> whatever that value is,
  and so is the protocol of the record the resolver returns. The parameter's value only
  serves as the condition of the conditional expression: when it is present and empty, the
  protocol is that of the metadata URL, or else of the page's location.
\<close>

theorem protocol_parameter_not_returned:
  assumes "\<not> isClashX e" and "getSearchParam e ''protocol'' = Some v"
  shows "(v \<noteq> [] \<longrightarrow> resolve_protocol e u h = ''http:'')
         \<and> (v \<noteq> [] \<longrightarrow> getExternalControllerConfig e = Inr c \<longrightarrow> protocol c = ''http:'')
         \<and> (v = [] \<longrightarrow> resolve_protocol e u h =
                           (case u of Some l \<Rightarrow> url_protocol l | None \<Rightarrow> location_protocol e))"
  using assms
  by (auto simp: getExternalControllerConfig_def resolve_protocol_def nullish_def Let_def
           split: sum.splits if_splits option.splits)

theorem protocol_parameter_not_returned_witness:
  "\<not> isClashX env_params \<and> getSearchParam env_params ''protocol'' = Some ''https:''
   \<and> ''https:'' \<noteq> []
   \<and> getExternalControllerConfig env_params =
       Inr \<lparr>hostname = ''192.168.1.2'', port = ''9090'', secret = ''s3cret'',
            protocol = ''http:''\<rparr>
   \<and> protocol \<lparr>hostname = ''192.168.1.2'', port = ''9090'', secret = ''s3cret'',
                protocol = ''http:''\<rparr> = ''http:''
   \<and> resolve_protocol env_params None ''192.168.1.2'' = ''http:''"
proof -
  have p1: "\<not> isClashX env_params"
    and p2: "getSearchParam env_params ''protocol'' = Some ''https:''"
    by (simp_all add: env_params_def)
  show ?thesis
    using protocol_parameter_not_returned
            [OF p1 p2, of None "''192.168.1.2''"
               "\<lparr>hostname = ''192.168.1.2'', port = ''9090'', secret = ''s3cret'',
                 protocol = ''http:''\<rparr>"]
          resolve_env_params p1 p2
    by simp
qed

section \<open>Proxy providers of an old daemon\<close>

text \<open>
  Claim C10. When the HTTP client exists and the daemon answers the request of
  \<open>getProxyProviders\<close>: a response with status 404 is accepted by \<open>validateStatus\<close>, the call
  resolves, and its data is replaced by \<open>{ providers: {} }\<close>; a response with a status from
  200 to 299 is returned as it is.
\<close>

theorem getProxyProviders_old_daemon:
  "(status resp = 404 \<longrightarrow>
      validateStatus (status resp)
      \<and> getProxyProviders (Inr req) (Inr resp) = Inr (resp\<lparr>data := \<lparr>providers = Map.empty\<rparr>\<rparr>))
   \<and> (200 \<le> status resp \<and> status resp < 300 \<longrightarrow>
        getProxyProviders (Inr req) (Inr resp) = Inr resp)"
  by (simp add: getProxyProviders_def axios_get_def validateStatus_def)

theorem getProxyProviders_old_daemon_witness:
  "getInstance_factory env_plain = Inr \<lparr>baseURL = ''http://127.0.0.1:9090'', headers = []\<rparr>
   \<and> getProxyProviders (getInstance_factory env_plain)
        (Inr \<lparr>status = 404, data = \<lparr>providers = [''hk'' \<mapsto> ''HTTP'']\<rparr>\<rparr>)
      = Inr \<lparr>status = 404, data = \<lparr>providers = Map.empty\<rparr>\<rparr>
   \<and> getProxyProviders (getInstance_factory env_plain)
        (Inr \<lparr>status = 204, data = \<lparr>providers = [''hk'' \<mapsto> ''HTTP'']\<rparr>\<rparr>)
      = Inr \<lparr>status = 204, data = \<lparr>providers = [''hk'' \<mapsto> ''HTTP'']\<rparr>\<rparr>"
proof -
  have inst: "getInstance_factory env_plain =
                Inr \<lparr>baseURL = ''http://127.0.0.1:9090'', headers = []\<rparr>"
    by (simp add: getInstance_factory_def resolve_env_plain)
  show ?thesis
    using getProxyProviders_old_daemon
            [of "\<lparr>status = 404, data = \<lparr>providers = [''hk'' \<mapsto> ''HTTP'']\<rparr>\<rparr>"
                "\<lparr>baseURL = ''http://127.0.0.1:9090'', headers = []\<rparr>"]
          getProxyProviders_old_daemon
            [of "\<lparr>status = 204, data = \<lparr>providers = [''hk'' \<mapsto> ''HTTP'']\<rparr>\<rparr>"
                "\<lparr>baseURL = ''http://127.0.0.1:9090'', headers = []\<rparr>"]
    by (simp add: inst)
qed

section \<open>The bounded buffer\<close>

lemma feed_snoc: "feed s (rs @ [r]) = produce (feed s rs) r"
  by (simp add: feed_def)

lemma capacity_feed: "capacity (feed s rs) = capacity s"
proof (induction rs rule: rev_induct)
  case Nil
  show ?case by (simp add: feed_def)
next
  case (snoc r rs)
  then show ?case by (simp add: feed_snoc produce_def)
qed

lemma records_feed:
  assumes pos: "0 < capacity s" and empty: "buffer s = []"
  shows "map snd (buffer (feed s rs)) = drop (length rs - capacity s) rs"
proof (induction rs rule: rev_induct)
  case Nil
  show ?case by (simp add: feed_def empty)
next
  case (snoc r rs)
  let ?st = "feed s rs"
  have "length (map snd (buffer ?st)) = length (drop (length rs - capacity s) rs)"
    by (simp only: snoc.IH)
  then have len: "length (buffer ?st) = min (length rs) (capacity s)"
    by simp
  have cap: "capacity ?st = capacity s"
    by (rule capacity_feed)
  show ?case
  proof (cases "capacity s \<le> length rs")
    case True
    then have full: "length (buffer ?st) = capacity ?st"
      using len cap by simp
    have "map snd (buffer (produce ?st r)) = tl (map snd (buffer ?st)) @ [r]"
      using full by (simp add: produce_def map_tl)
    also have "\<dots> = drop (Suc (length rs - capacity s)) rs @ [r]"
      by (simp add: snoc.IH drop_Suc tl_drop)
    also have "\<dots> = drop (length (rs @ [r]) - capacity s) (rs @ [r])"
      using True pos by (simp add: Suc_diff_le)
    finally show ?thesis by (simp add: feed_snoc)
  next
    case False
    then have room: "length (buffer ?st) \<noteq> capacity ?st"
      using len cap by simp
    have "map snd (buffer (produce ?st r)) = map snd (buffer ?st) @ [r]"
      using room by (simp add: produce_def)
    also have "\<dots> = rs @ [r]"
      using False by (simp add: snoc.IH)
    also have "\<dots> = drop (length (rs @ [r]) - capacity s) (rs @ [r])"
      using False by simp
    finally show ?thesis by (simp add: feed_snoc)
  qed
qed

lemma length_buffer_feed:
  assumes "0 < capacity s" and "buffer s = []"
  shows "length (buffer (feed s rs)) = min (length rs) (capacity s)"
proof -
  have "length (map snd (buffer (feed s rs))) = length (drop (length rs - capacity s) rs)"
    by (simp only: records_feed [OF assms])
  then show ?thesis by simp
qed

text \<open>
  Claim C7. For a reader of capacity \<open>B > 0\<close> and any sequence \<open>rs\<close> of produced records:
  after every prefix of \<open>rs\<close>, and after all of it, the buffer holds at most \<open>B\<close> records;
  the buffered records are the last \<open>B\<close> records of \<open>rs\<close> in production order (all of \<open>rs\<close>
  while it has fewer), so exactly \<open>B\<close> of them once more than \<open>B\<close> were produced; and a record
  arriving at a full buffer drops the oldest buffered record and goes to the end.
\<close>

theorem ring_buffer_most_recent:
  assumes "0 < B"
  shows "length (buffer (feed (new_reader B n0) (take k rs))) \<le> B
         \<and> length (buffer (feed (new_reader B n0) rs)) \<le> B
         \<and> map snd (buffer (feed (new_reader B n0) rs)) = drop (length rs - B) rs
         \<and> (B < length rs \<longrightarrow> length (buffer (feed (new_reader B n0) rs)) = B)
         \<and> (length (buffer s) = capacity s \<longrightarrow>
               map snd (buffer (produce s r)) = tl (map snd (buffer s)) @ [r])"
proof -
  have c: "0 < capacity (new_reader B n0 :: 'a reader_state)"
    and b: "buffer (new_reader B n0 :: 'a reader_state) = []"
    using assms by (simp_all add: new_reader_def)
  have cap: "capacity (new_reader B n0 :: 'a reader_state) = B"
    by (simp add: new_reader_def)
  have len: "length (buffer (feed (new_reader B n0) xs)) = min (length xs) B" for xs :: "'a list"
    using length_buffer_feed [OF c b, of xs] by (simp add: cap)
  have recs: "map snd (buffer (feed (new_reader B n0) rs)) = drop (length rs - B) rs"
    using records_feed [OF c b, of rs] by (simp add: cap)
  have evict: "map snd (buffer (produce s r)) = tl (map snd (buffer s)) @ [r]"
    if "length (buffer s) = capacity s"
    using that by (simp add: produce_def map_tl)
  show ?thesis
    using len recs evict by simp
qed

theorem ring_buffer_most_recent_witness:
  "(0::nat) < 3
   \<and> map snd (buffer (feed (new_reader 3 0) [''A'', ''B'', ''C'', ''D''])) = [''B'', ''C'', ''D'']
   \<and> length (buffer (feed (new_reader 3 0) [''A'', ''B'', ''C'', ''D''])) = 3
   \<and> length (buffer (feed (new_reader 3 0) (take 2 [''A'', ''B'', ''C'', ''D'']))) \<le> 3"
proof -
  have pos: "(0::nat) < 3" by simp
  show ?thesis
    using ring_buffer_most_recent
            [OF pos, of 0 2 "[''A'', ''B'', ''C'', ''D'']" "new_reader 3 0" "''E''"]
    by simp
qed

section \<open>Exactly-once initialisation\<close>

lemma callers_append: "callers (xs @ ys) = callers xs @ callers ys"
  by (induction xs rule: callers.induct) simp_all

lemma run_Nil: "run factory [] = new_singleton"
  by (simp add: run_def)

lemma run_snoc: "run factory (evs @ [ev]) = step factory (run factory evs) ev"
  by (simp add: run_def)

lemma run_append: "run factory (xs @ ys) = foldl (step factory) (run factory xs) ys"
  by (simp add: run_def)

lemma singleton_inv_step:
  assumes "singleton_inv factory evs s"
  shows "singleton_inv factory (evs @ [ev]) (step factory s ev)"
proof (cases ev)
  case (Get c)
  with assms show ?thesis
    by (cases "slot s") (auto simp: singleton_inv_def callers_append)
next
  case Settle
  with assms show ?thesis
    by (cases "slot s") (auto simp: singleton_inv_def callers_append split: sum.splits)
qed

lemma singleton_inv_run: "singleton_inv factory evs (run factory evs)"
proof (induction evs rule: rev_induct)
  case Nil
  show ?case by (simp add: run_Nil singleton_inv_def new_singleton_def)
next
  case (snoc ev evs)
  then show ?case by (simp add: run_snoc singleton_inv_step)
qed

lemma settled_step: "settled s \<Longrightarrow> settled (step factory s ev)"
  by (cases ev; cases "slot s") (simp_all add: settled_def)

lemma settled_foldl: "settled s \<Longrightarrow> settled (foldl (step factory) s evs)"
  by (induction evs arbitrary: s) (simp_all add: settled_step)

lemma settled_after_Settle:
  assumes "callers pre \<noteq> []"
  shows "settled (run factory (pre @ Settle # post))"
proof -
  have "singleton_inv factory pre (run factory pre)"
    by (rule singleton_inv_run)
  with assms have "settled (step factory (run factory pre) Settle)"
    by (cases "slot (run factory pre)")
       (auto simp: singleton_inv_def settled_def split: sum.splits)
  then have "settled (foldl (step factory) (step factory (run factory pre) Settle) post)"
    by (rule settled_foldl)
  then show ?thesis by (simp add: run_append)
qed

text \<open>
  Claim C2. Over any sequence of events with at least one call (calls may arrive before
  or after the factory settles), the factory has been invoked exactly once; every result
  delivered to a caller is the outcome of that one invocation, so all successful calls
  hold the same value; and once the factory has settled, every caller so far has its result.
\<close>

theorem factory_invoked_once:
  assumes "callers evs \<noteq> []"
  shows "invocations (run factory evs) = 1
         \<and> (\<forall>d \<in> set (delivered (run factory evs)). snd d = factory 0)
         \<and> (settled (run factory evs) \<longrightarrow> map fst (delivered (run factory evs)) = callers evs)"
proof -
  have inv: "singleton_inv factory evs (run factory evs)"
    by (rule singleton_inv_run)
  show ?thesis
  proof (cases "slot (run factory evs)")
    case Unresolved
    with inv assms show ?thesis by (simp add: singleton_inv_def)
  next
    case (InFlight k ws)
    with inv show ?thesis by (simp add: singleton_inv_def settled_def)
  next
    case (Resolved v)
    with inv show ?thesis by (auto simp: singleton_inv_def comp_def)
  next
    case (Failed err)
    with inv show ?thesis by (auto simp: singleton_inv_def comp_def)
  qed
qed

theorem factory_invoked_once_witness:
  "callers [Get 1, Get 2, Settle, Get 3] \<noteq> []
   \<and> invocations (run logs_instances [Get 1, Get 2, Settle, Get 3]) = 1
   \<and> delivered (run logs_instances [Get 1, Get 2, Settle, Get 3]) =
       [(1, logs_instances 0), (2, logs_instances 0), (3, logs_instances 0)]
   \<and> logs_instances 0 =
       Inr (0, StreamReader \<lparr>url = ''http://127.0.0.1:9090/logs?level=info'',
                              bufferLength = 200, token = [], useWebsocket = True\<rparr>)"
proof -
  have c: "callers [Get 1, Get 2, Settle, Get 3] \<noteq> []" by simp
  have v: "logs_instances 0 =
             Inr (0, StreamReader \<lparr>url = ''http://127.0.0.1:9090/logs?level=info'',
                                    bufferLength = 200, token = [], useWebsocket = True\<rparr>)"
    by (simp add: logs_instances_def logs_factory_resolved [OF resolve_env_plain]
                  sample_config_def)
  have d: "delivered (run logs_instances [Get 1, Get 2, Settle, Get 3]) =
             [(1, logs_instances 0), (2, logs_instances 0), (3, logs_instances 0)]"
    by (simp add: run_def new_singleton_def v)
  show ?thesis
    using factory_invoked_once [OF c, of logs_instances] c v d by simp
qed

section \<open>A failed factory\<close>

text \<open>
  Claim C8. If the factory's invocation fails with \<open>err\<close>, then once it has settled the
  singleton holds that failure for good: over any later events the factory has still been
  invoked once only, and every caller, those that were waiting when it settled and those
  that call afterwards, has been given the same failure \<open>err\<close>.
\<close>

theorem factory_failure_cached:
  assumes "factory 0 = Inl err" and "callers pre \<noteq> []"
  shows "slot (run factory (pre @ Settle # post)) = Failed err
         \<and> invocations (run factory (pre @ Settle # post)) = 1
         \<and> delivered (run factory (pre @ [Settle])) = map (\<lambda>c. (c, Inl err)) (callers pre)
         \<and> delivered (run factory (pre @ Settle # post)) =
             map (\<lambda>c. (c, Inl err)) (callers pre @ callers post)"
proof -
  have shape: "slot (run factory (pre @ Settle # xs)) = Failed err
               \<and> invocations (run factory (pre @ Settle # xs)) = 1
               \<and> delivered (run factory (pre @ Settle # xs)) =
                   map (\<lambda>c. (c, Inl err)) (callers pre @ callers xs)" for xs
  proof -
    let ?s = "run factory (pre @ Settle # xs)"
    have inv: "singleton_inv factory (pre @ Settle # xs) ?s"
      by (rule singleton_inv_run)
    have st: "settled ?s"
      by (rule settled_after_Settle [OF assms(2)])
    show ?thesis
    proof (cases "slot ?s")
      case Unresolved
      with st show ?thesis by (simp add: settled_def)
    next
      case (InFlight k ws)
      with st show ?thesis by (simp add: settled_def)
    next
      case (Resolved v)
      with inv assms(1) show ?thesis by (simp add: singleton_inv_def)
    next
      case (Failed err')
      with inv assms(1) show ?thesis by (simp add: singleton_inv_def callers_append)
    qed
  qed
  show ?thesis
    using shape [of post] shape [of "[]"] by simp
qed

theorem factory_failure_cached_witness:
  "retried_factory 0 = Inl CantGetHostnameOrPort
   \<and> callers [Get 1, Get 2] \<noteq> []
   \<and> slot (run retried_factory ([Get 1, Get 2] @ Settle # [Get 3, Settle, Get 4]))
       = Failed CantGetHostnameOrPort
   \<and> invocations (run retried_factory ([Get 1, Get 2] @ Settle # [Get 3, Settle, Get 4])) = 1
   \<and> delivered (run retried_factory ([Get 1, Get 2] @ Settle # [Get 3, Settle, Get 4])) =
       [(1, Inl CantGetHostnameOrPort), (2, Inl CantGetHostnameOrPort),
        (3, Inl CantGetHostnameOrPort), (4, Inl CantGetHostnameOrPort)]"
proof -
  have f: "retried_factory 0 = Inl CantGetHostnameOrPort"
    by (simp add: retried_factory_def getLogsStreamReader_factory_def resolver_defs
                  env_empty_port_def)
  have c: "callers [Get 1, Get 2] \<noteq> []" by simp
  show ?thesis
    using factory_failure_cached
            [where factory = retried_factory and pre = "[Get 1, Get 2]"
               and post = "[Get 3, Settle, Get 4]", OF f c]
          f c
    by simp
qed

end
